theory Spec2Isabelle
  imports
    Main
    "HOL-Library.AList"
    "HOL-Library.Multiset"
    "HOL-Library.Char_ord"
    "HOL-Library.List_Lexorder"
begin

section \<open>Data model of \<^verbatim>\<open>ims_backend.py\<close>\<close>

text \<open>
  The backend keeps one JSON document with three dictionaries, \<^verbatim>\<open>products\<close>,
  \<^verbatim>\<open>documents\<close> and \<^verbatim>\<open>locations\<close>, each from an id to an entity. The entities are
  records with the keys that \<^verbatim>\<open>load_data\<close> seeds. A Python \<^verbatim>\<open>dict\<close> keeps its keys in
  insertion order, so a dictionary is an association list here; \<^verbatim>\<open>d.values()\<close> and
  \<^verbatim>\<open>d.items()\<close> read it front to back. Integers are Python's unbounded \<^verbatim>\<open>int\<close>.
  Strings compare as Python compares \<^verbatim>\<open>str\<close>: lexicographically, element by element.

  Field names follow the JSON keys; \<^verbatim>\<open>id\<close>, \<^verbatim>\<open>name\<close> and \<^verbatim>\<open>type\<close> carry the entity as
  a prefix, because one name cannot select from two records.
\<close>

record product =
  prod_id :: string
  category :: string
  prod_name :: string
  location_id :: string
  stock_level :: int
  reorder_point :: int

record location =
  loc_id :: string
  loc_name :: string
  manager :: string

record line =
  product_id :: string
  qty :: int
  line_category :: string

text \<open>
  \<^verbatim>\<open>source_location\<close>, \<^verbatim>\<open>target_location\<close> and \<^verbatim>\<open>category_list\<close> are read with
  \<^verbatim>\<open>doc.get\<close>: a document may lack them (\<open>None\<close>). \<^verbatim>\<open>type\<close>, \<^verbatim>\<open>status\<close> and
  \<^verbatim>\<open>created_at\<close> are read with \<^verbatim>\<open>doc[...]\<close> and are present in every document.
\<close>

record document =
  doc_id :: string
  doc_type :: string
  status :: string
  created_by :: string
  created_at :: string
  lines :: "line list"
  source_location :: "string option"
  target_location :: "string option"
  category_list :: "string list option"

record snapshot =
  products :: "(string \<times> product) list"
  documents :: "(string \<times> document) list"
  locations :: "(string \<times> location) list"

text \<open>The exceptions the two endpoints can raise on such a snapshot.\<close>

datatype pyerror =
  KeyError string
  | ZeroDivisionError
  | OverflowError
  | AttributeError

text \<open>\<^verbatim>\<open>d.values()\<close> of a dictionary.\<close>

definition dict_values :: "('k \<times> 'v) list \<Rightarrow> 'v list" where
  "dict_values d = map snd d"

text \<open>\<^verbatim>\<open>d.get(k, default)\<close>.\<close>

definition dict_get :: "('k \<times> 'v) list \<Rightarrow> 'k \<Rightarrow> 'v \<Rightarrow> 'v" where
  "dict_get d k dflt = (case map_of d k of None \<Rightarrow> dflt | Some v \<Rightarrow> v)"

text \<open>
  \<^verbatim>\<open>d[k] = v\<close>: the value of an existing key is replaced where the key stands, a new key
  goes to the end. This is \<^const>\<open>AList.update\<close>.
\<close>

definition dict_set :: "'k \<Rightarrow> 'v \<Rightarrow> ('k \<times> 'v) list \<Rightarrow> ('k \<times> 'v) list" where
  "dict_set k v d = AList.update k v d"

section \<open>The dashboard summary\<close>

definition LOW_STOCK_THRESHOLD :: int where
  "LOW_STOCK_THRESHOLD = 20"

record location_entry =
  le_location :: string
  le_stock :: int

text \<open>
  An entry of \<^verbatim>\<open>category_chart_data\<close>. Its \<^verbatim>\<open>percent\<close> is a Python \<^verbatim>\<open>float\<close>; the type
  of floats is the parameter \<open>'f\<close>.
\<close>

record 'f category_entry =
  ce_name :: string
  ce_value :: int
  ce_percent :: 'f

record 'f summary =
  total_products_in_stock :: int
  low_stock_items :: nat
  out_of_stock_items :: nat
  pending_receipts :: nat
  pending_deliveries :: nat
  transfers_scheduled :: nat
  adjustments_pending :: nat
  summary_locations :: "(string \<times> location) list"
  location_chart_data :: "location_entry list"
  category_chart_data :: "'f category_entry list"

text \<open>
  The two accumulation loops of \<^verbatim>\<open>get_dashboard_summary\<close>,
  \<^verbatim>\<open>
  location_stock = {}
  for p in products:
      loc_id = p['location_id']
      location_stock[loc_id] = location_stock.get(loc_id, 0) + p['stock_level']
  \<close>
  and the same with \<^verbatim>\<open>category_counts\<close> and \<^verbatim>\<open>p['category']\<close>. The second argument is
  the dictionary built so far.
\<close>

fun location_stock_loop :: "product list \<Rightarrow> (string \<times> int) list \<Rightarrow> (string \<times> int) list" where
  "location_stock_loop [] location_stock = location_stock"
| "location_stock_loop (p # ps) location_stock =
     location_stock_loop ps
       (dict_set (location_id p) (dict_get location_stock (location_id p) 0 + stock_level p)
          location_stock)"

fun category_counts_loop :: "product list \<Rightarrow> (string \<times> int) list \<Rightarrow> (string \<times> int) list" where
  "category_counts_loop [] category_counts = category_counts"
| "category_counts_loop (p # ps) category_counts =
     category_counts_loop ps
       (dict_set (category p) (dict_get category_counts (category p) 0 + stock_level p)
          category_counts)"

text \<open>
  \<^verbatim>\<open>
  [{'location': data['locations'][loc]['name'], 'stock': stock}
   for loc, stock in location_stock.items()]
  \<close>
  The subscript \<^verbatim>\<open>data['locations'][loc]\<close> raises \<^verbatim>\<open>KeyError\<close> at the first \<open>loc\<close> that is
  not a key of the locations.
\<close>

fun build_location_chart ::
  "(string \<times> location) list \<Rightarrow> (string \<times> int) list \<Rightarrow> pyerror + location_entry list" where
  "build_location_chart locs [] = Inr []"
| "build_location_chart locs ((loc, stock) # rest) =
     (case map_of locs loc of
        None \<Rightarrow> Inl (KeyError loc)
      | Some l \<Rightarrow>
          (case build_location_chart locs rest of
             Inl e \<Rightarrow> Inl e
           | Inr es \<Rightarrow> Inr (\<lparr>le_location = loc_name l, le_stock = stock\<rparr> # es)))"

text \<open>
  \<^verbatim>\<open>
  [{'name': cat, 'value': count, 'percent': round(count / total_stock * 100, 1)}
   for cat, count in category_counts.items()]
  \<close>
  \<^verbatim>\<open>count / total_stock\<close> is the true division of two \<^verbatim>\<open>int\<close>s: it raises
  \<^verbatim>\<open>ZeroDivisionError\<close> when \<^verbatim>\<open>total_stock\<close> is \<open>0\<close>, whatever \<^verbatim>\<open>count\<close> is
  (\<open>cnt\<close> below). Otherwise the
  result is a float, and what follows is float arithmetic. That arithmetic is not
  modelled: \<open>round_percent cnt total_stock\<close> stands for the value of
  \<^verbatim>\<open>round(count / total_stock * 100, 1)\<close> when \<^verbatim>\<open>total_stock\<close> is not \<open>0\<close>, and is \<open>None\<close>
  where the division raises \<^verbatim>\<open>OverflowError\<close> (a quotient too large for a float).
\<close>

fun build_category_chart ::
  "(int \<Rightarrow> int \<Rightarrow> 'f option) \<Rightarrow> int \<Rightarrow> (string \<times> int) list \<Rightarrow> pyerror + 'f category_entry list" where
  "build_category_chart round_percent total_stock [] = Inr []"
| "build_category_chart round_percent total_stock ((cat, cnt) # rest) =
     (if total_stock = 0 then Inl ZeroDivisionError
      else
        (case round_percent cnt total_stock of
           None \<Rightarrow> Inl OverflowError
         | Some pc \<Rightarrow>
             (case build_category_chart round_percent total_stock rest of
                Inl e \<Rightarrow> Inl e
              | Inr es \<Rightarrow> Inr (\<lparr>ce_name = cat, ce_value = cnt, ce_percent = pc\<rparr> # es))))"

text \<open>
  The body of \<^verbatim>\<open>get_dashboard_summary\<close>, on the snapshot that \<^verbatim>\<open>load_data()\<close> returned,
  for a request that \<^verbatim>\<open>require_auth\<close> let through. The statements are in the order of the source: the location chart is built, and may
  raise, before the category chart.
\<close>

definition get_dashboard_summary ::
  "(int \<Rightarrow> int \<Rightarrow> 'f option) \<Rightarrow> snapshot \<Rightarrow> pyerror + 'f summary" where
  "get_dashboard_summary round_percent data =
     (let prods = dict_values (products data);
          docs = dict_values (documents data);
          total = sum_list (map stock_level prods);
          low = length [p \<leftarrow> prods. stock_level p > 0 \<and> stock_level p \<le> LOW_STOCK_THRESHOLD];
          out = length [p \<leftarrow> prods. stock_level p = 0];
          receipts = length [d \<leftarrow> docs. doc_type d = ''Receipt'' \<and> status d \<in> set [''Waiting'', ''Ready'']];
          deliveries = length [d \<leftarrow> docs. doc_type d = ''Delivery'' \<and> status d \<in> set [''Waiting'', ''Ready'']];
          transfers = length [d \<leftarrow> docs. doc_type d = ''Internal'' \<and> status d \<in> set [''Waiting'', ''Ready'']];
          adjustments = length [d \<leftarrow> docs. doc_type d = ''Adjustment'' \<and> status d \<in> set [''Draft'', ''Waiting'', ''Ready'']];
          location_stock = location_stock_loop prods []
      in case build_location_chart (locations data) location_stock of
           Inl e \<Rightarrow> Inl e
         | Inr location_chart \<Rightarrow>
             (let category_counts = category_counts_loop prods [];
                  total_stock = total
              in case build_category_chart round_percent total_stock category_counts of
                   Inl e \<Rightarrow> Inl e
                 | Inr category_chart \<Rightarrow>
                     Inr \<lparr>total_products_in_stock = total,
                          low_stock_items = low,
                          out_of_stock_items = out,
                          pending_receipts = receipts,
                          pending_deliveries = deliveries,
                          transfers_scheduled = transfers,
                          adjustments_pending = adjustments,
                          summary_locations = locations data,
                          location_chart_data = location_chart,
                          category_chart_data = category_chart\<rparr>))"

section \<open>The document filter\<close>

text \<open>
  The filter specification is the JSON body of the request, as \<^verbatim>\<open>request.get_json()\<close>
  returns it: any JSON value. An object is the dictionary the parser built, with its keys
  distinct. The value of a number plays no role below: a string and \<^verbatim>\<open>None\<close> are never
  equal to a number.
\<close>

datatype json =
  JNull
  | JBool bool
  | JNum int
  | JStr string
  | JList "json list"
  | JObj "(string \<times> json) list"

text \<open>The truth value of a JSON value in \<^verbatim>\<open>if v and ...\<close>.\<close>

fun truthy :: "json \<Rightarrow> bool" where
  "truthy JNull = False"
| "truthy (JBool b) = b"
| "truthy (JNum n) = (n \<noteq> 0)"
| "truthy (JStr s) = (s \<noteq> [])"
| "truthy (JList xs) = (xs \<noteq> [])"
| "truthy (JObj kvs) = (kvs \<noteq> [])"

text \<open>\<^verbatim>\<open>isinstance(v, list)\<close>.\<close>

fun isinstance_list :: "json \<Rightarrow> bool" where
  "isinstance_list (JList xs) = True"
| "isinstance_list v = False"

text \<open>
  \<^verbatim>\<open>x in v\<close> for a list \<open>v\<close>: some element equals \<open>x\<close>. The filter evaluates it only
  after \<^verbatim>\<open>isinstance(v, list)\<close>, and only for an \<open>x\<close> that is a string or \<^verbatim>\<open>None\<close>, where
  Python's \<^verbatim>\<open>==\<close> is equality of JSON values.
\<close>

fun py_in :: "json \<Rightarrow> json \<Rightarrow> bool" where
  "py_in x (JList xs) = (x \<in> set xs)"
| "py_in x v = False"

text \<open>
  \<^verbatim>\<open>doc.get('source_location')\<close>: the string when the document has the key, \<^verbatim>\<open>None\<close>
  when it has not.
\<close>

fun doc_get :: "string option \<Rightarrow> json" where
  "doc_get None = JNull"
| "doc_get (Some s) = JStr s"

text \<open>\<^verbatim>\<open>filters.get(key)\<close>: \<^verbatim>\<open>None\<close> for a key that is absent.\<close>

definition filters_get :: "(string \<times> json) list \<Rightarrow> string \<Rightarrow> json" where
  "filters_get filters k = dict_get filters k JNull"

text \<open>The four filter blocks, each one pass over the documents that are left.\<close>

definition filter_by_document_type :: "json \<Rightarrow> document list \<Rightarrow> document list" where
  "filter_by_document_type doc_types filtered_docs =
     (if truthy doc_types \<and> isinstance_list doc_types
      then [doc \<leftarrow> filtered_docs. py_in (JStr (doc_type doc)) doc_types]
      else filtered_docs)"

definition filter_by_status :: "json \<Rightarrow> document list \<Rightarrow> document list" where
  "filter_by_status statuses filtered_docs =
     (if truthy statuses \<and> isinstance_list statuses
      then [doc \<leftarrow> filtered_docs. py_in (JStr (status doc)) statuses]
      else filtered_docs)"

definition filter_by_location :: "json \<Rightarrow> document list \<Rightarrow> document list" where
  "filter_by_location locs filtered_docs =
     (if truthy locs \<and> isinstance_list locs
      then [doc \<leftarrow> filtered_docs.
              py_in (doc_get (source_location doc)) locs \<or> py_in (doc_get (target_location doc)) locs]
      else filtered_docs)"

definition filter_by_category :: "json \<Rightarrow> document list \<Rightarrow> document list" where
  "filter_by_category categories filtered_docs =
     (if truthy categories \<and> isinstance_list categories
      then [doc \<leftarrow> filtered_docs.
              list_ex (\<lambda>c. py_in (JStr c) categories)
                (case category_list doc of None \<Rightarrow> [] | Some cl \<Rightarrow> cl)]
      else filtered_docs)"

text \<open>Lines 176 to 201: the documents that match, in the order of the snapshot.\<close>

definition apply_filters :: "(string \<times> json) list \<Rightarrow> document list \<Rightarrow> document list" where
  "apply_filters filters all_docs =
     (let filtered_docs = all_docs;
          filtered_docs = filter_by_document_type (filters_get filters ''document_type'') filtered_docs;
          filtered_docs = filter_by_status (filters_get filters ''status'') filtered_docs;
          filtered_docs = filter_by_location (filters_get filters ''location'') filtered_docs;
          filtered_docs = filter_by_category (filters_get filters ''category'') filtered_docs
      in filtered_docs)"

text \<open>
  \<^verbatim>\<open>xs.sort(key=key, reverse=True)\<close>. Python's sort is stable, and with
  \<^verbatim>\<open>reverse=True\<close> elements of equal key still keep their order: the list is reversed,
  sorted upwards by a stable sort, and reversed again.
\<close>

definition py_sort_reverse :: "('a \<Rightarrow> 'k::linorder) \<Rightarrow> 'a list \<Rightarrow> 'a list" where
  "py_sort_reverse key xs = rev (sort_key key (rev xs))"

record filter_response =
  resp_count :: nat
  resp_documents :: "document list"

text \<open>
  The body of \<^verbatim>\<open>filter_documents\<close>, on the request body and the snapshot's documents, for
  a request that \<^verbatim>\<open>require_auth\<close> let through.
  \<^verbatim>\<open>filters.get\<close> exists only on a dictionary: any other body raises \<^verbatim>\<open>AttributeError\<close>.
\<close>

fun filter_documents :: "json \<Rightarrow> (string \<times> document) list \<Rightarrow> pyerror + filter_response" where
  "filter_documents (JObj filters) documents_dict =
     (let all_docs = dict_values documents_dict;
          filtered_docs = apply_filters filters all_docs;
          filtered_docs = py_sort_reverse created_at filtered_docs
      in Inr \<lparr>resp_count = length filtered_docs, resp_documents = take 15 filtered_docs\<rparr>)"
| "filter_documents body documents_dict = Inl AttributeError"

section \<open>The seeded snapshot\<close>

text \<open>
  The default data of \<^verbatim>\<open>load_data\<close>. Every document takes its \<^verbatim>\<open>created_at\<close> from its own
  call of \<^verbatim>\<open>datetime.now().isoformat()\<close>: the four timestamps are parameters.
\<close>

definition D001 :: "string \<Rightarrow> document" where
  "D001 t = \<lparr>doc_id = ''D001'', doc_type = ''Delivery'', status = ''Ready'', created_by = ''SM001'',
     created_at = t,
     lines = [\<lparr>product_id = ''P1A2B3C4'', qty = 5, line_category = ''Electronics''\<rparr>],
     source_location = Some ''W001'', target_location = None,
     category_list = Some [''Electronics'']\<rparr>"

definition R002 :: "string \<Rightarrow> document" where
  "R002 t = \<lparr>doc_id = ''R002'', doc_type = ''Receipt'', status = ''Waiting'', created_by = ''InvManager'',
     created_at = t,
     lines = [\<lparr>product_id = ''P9G0H1I2'', qty = 200, line_category = ''Components''\<rparr>],
     source_location = None, target_location = Some ''W001'',
     category_list = Some [''Components'']\<rparr>"

definition T003 :: "string \<Rightarrow> document" where
  "T003 t = \<lparr>doc_id = ''T003'', doc_type = ''Internal'', status = ''Draft'', created_by = ''WH002'',
     created_at = t,
     lines = [\<lparr>product_id = ''P5D6E7F8'', qty = 20, line_category = ''Peripherals''\<rparr>],
     source_location = Some ''W002'', target_location = Some ''W001'',
     category_list = Some [''Peripherals'']\<rparr>"

definition A004 :: "string \<Rightarrow> document" where
  "A004 t = \<lparr>doc_id = ''A004'', doc_type = ''Adjustment'', status = ''Done'', created_by = ''StockMaster'',
     created_at = t,
     lines = [\<lparr>product_id = ''P00A0B0C'', qty = - 10, line_category = ''Apparel''\<rparr>],
     source_location = None, target_location = None,
     category_list = Some [''Apparel'']\<rparr>"

definition default_products :: "(string \<times> product) list" where
  "default_products =
    [(''P1A2B3C4'', \<lparr>prod_id = ''P1A2B3C4'', category = ''Electronics'', prod_name = ''Laptop Model X'',
        location_id = ''W001'', stock_level = 120, reorder_point = 30\<rparr>),
     (''P5D6E7F8'', \<lparr>prod_id = ''P5D6E7F8'', category = ''Peripherals'', prod_name = ''Wireless Mouse Z'',
        location_id = ''W002'', stock_level = 35, reorder_point = 50\<rparr>),
     (''P9G0H1I2'', \<lparr>prod_id = ''P9G0H1I2'', category = ''Components'', prod_name = ''Memory Module 16GB'',
        location_id = ''W001'', stock_level = 1000, reorder_point = 100\<rparr>),
     (''P00A0B0C'', \<lparr>prod_id = ''P00A0B0C'', category = ''Apparel'', prod_name = ''Safety Vest'',
        location_id = ''W002'', stock_level = 10, reorder_point = 50\<rparr>),
     (''P0D0E0F0'', \<lparr>prod_id = ''P0D0E0F0'', category = ''Home Goods'', prod_name = ''Cleaning Wipes'',
        location_id = ''W001'', stock_level = 5, reorder_point = 10\<rparr>)]"

definition default_locations :: "(string \<times> location) list" where
  "default_locations =
    [(''W001'', \<lparr>loc_id = ''W001'', loc_name = ''Main Warehouse'', manager = ''Alice''\<rparr>),
     (''W002'', \<lparr>loc_id = ''W002'', loc_name = ''Overflow Storage'', manager = ''Bob''\<rparr>)]"

definition default_data :: "string \<Rightarrow> string \<Rightarrow> string \<Rightarrow> string \<Rightarrow> snapshot" where
  "default_data t1 t2 t3 t4 =
    \<lparr>products = default_products,
     documents = [(''D001'', D001 t1), (''R002'', R002 t2), (''T003'', T003 t3), (''A004'', A004 t4)],
     locations = default_locations\<rparr>"

section \<open>Properties of the dictionaries and the two charts\<close>

lemma sum_dict_set_get:
  "sum_list (map snd (dict_set k (dict_get d k 0 + x) d)) = sum_list (map snd d) + (x::int)"
  by (induction d) (auto simp: dict_set_def dict_get_def)

lemma sum_category_counts_loop:
  "sum_list (map snd (category_counts_loop ps acc)) =
     sum_list (map snd acc) + sum_list (map stock_level ps)"
  by (induction ps arbitrary: acc) (simp_all add: sum_dict_set_get)

lemma sum_location_stock_loop:
  "sum_list (map snd (location_stock_loop ps acc)) =
     sum_list (map snd acc) + sum_list (map stock_level ps)"
  by (induction ps arbitrary: acc) (simp_all add: sum_dict_set_get)

lemma keys_dict_set: "fst ` set (dict_set k v d) = insert k (fst ` set d)"
  by (simp add: dict_set_def dom_update)

lemma keys_location_stock_loop:
  "fst ` set (location_stock_loop ps acc) = fst ` set acc \<union> location_id ` set ps"
  by (induction ps arbitrary: acc) (auto simp: keys_dict_set)

lemma keys_category_counts_loop:
  "fst ` set (category_counts_loop ps acc) = fst ` set acc \<union> category ` set ps"
  by (induction ps arbitrary: acc) (auto simp: keys_dict_set)

lemma build_location_chart_Inr:
  "(\<exists>es. build_location_chart locs ls = Inr es) \<longleftrightarrow> fst ` set ls \<subseteq> fst ` set locs"
proof (induction locs ls rule: build_location_chart.induct)
  case (1 locs)
  then show ?case by simp
next
  case (2 locs loc stock rest)
  show ?case
  proof (cases "map_of locs loc")
    case None
    then have "loc \<notin> fst ` set locs" by (simp add: map_of_eq_None_iff)
    with None show ?thesis by auto
  next
    case (Some l)
    then have "loc \<in> fst ` set locs" using map_of_eq_None_iff [of locs loc] by simp
    with Some 2 show ?thesis by (auto split: sum.splits)
  qed
qed

lemma build_location_chart_Inl:
  "build_location_chart locs ls = Inl e \<Longrightarrow>
     \<exists>k. e = KeyError k \<and> k \<in> fst ` set ls \<and> k \<notin> fst ` set locs"
  by (induction locs ls rule: build_location_chart.induct)
     (auto simp: map_of_eq_None_iff split: option.splits sum.splits)

lemma build_location_chart_stock:
  "build_location_chart locs ls = Inr es \<Longrightarrow> map le_stock es = map snd ls"
  by (induction locs ls arbitrary: es rule: build_location_chart.induct)
     (auto split: option.splits sum.splits)

lemma build_category_chart_value:
  "build_category_chart rp t cc = Inr es \<Longrightarrow> map ce_value es = map snd cc \<and> map ce_name es = map fst cc"
  by (induction rp t cc arbitrary: es rule: build_category_chart.induct)
     (auto split: option.splits sum.splits if_splits)

lemma build_category_chart_zero:
  "cc \<noteq> [] \<Longrightarrow> build_category_chart rp 0 cc = Inl ZeroDivisionError"
  by (cases cc) auto

lemma build_category_chart_Inr:
  "t \<noteq> 0 \<Longrightarrow> \<forall>c. rp c t \<noteq> None \<Longrightarrow> \<exists>es. build_category_chart rp t cc = Inr es"
proof (induction rp t cc rule: build_category_chart.induct)
  case (1 round_percent total_stock)
  then show ?case by simp
next
  case (2 round_percent total_stock cat cnt rest)
  from 2(3) obtain pc where pc: "round_percent cnt total_stock = Some pc" by auto
  from 2(1)[OF 2(2) pc 2(2,3)] obtain es where "build_category_chart round_percent total_stock rest = Inr es" by auto
  with pc 2(2) show ?case by simp
qed

section \<open>What the summary endpoint returns\<close>

lemma get_dashboard_summary_InrD:
  assumes "get_dashboard_summary rp data = Inr s"
  shows "total_products_in_stock s = sum_list (map stock_level (dict_values (products data)))"
    and "low_stock_items s =
          length [p \<leftarrow> dict_values (products data). stock_level p > 0 \<and> stock_level p \<le> LOW_STOCK_THRESHOLD]"
    and "out_of_stock_items s = length [p \<leftarrow> dict_values (products data). stock_level p = 0]"
    and "pending_receipts s =
          length [d \<leftarrow> dict_values (documents data). doc_type d = ''Receipt'' \<and> status d \<in> set [''Waiting'', ''Ready'']]"
    and "pending_deliveries s =
          length [d \<leftarrow> dict_values (documents data). doc_type d = ''Delivery'' \<and> status d \<in> set [''Waiting'', ''Ready'']]"
    and "transfers_scheduled s =
          length [d \<leftarrow> dict_values (documents data). doc_type d = ''Internal'' \<and> status d \<in> set [''Waiting'', ''Ready'']]"
    and "adjustments_pending s =
          length [d \<leftarrow> dict_values (documents data). doc_type d = ''Adjustment'' \<and> status d \<in> set [''Draft'', ''Waiting'', ''Ready'']]"
    and "build_location_chart (locations data) (location_stock_loop (dict_values (products data)) [])
          = Inr (location_chart_data s)"
    and "build_category_chart rp (sum_list (map stock_level (dict_values (products data))))
           (category_counts_loop (dict_values (products data)) []) = Inr (category_chart_data s)"
  using assms
  by (auto simp: get_dashboard_summary_def Let_def split: sum.splits)

lemma get_dashboard_summary_KeyError:
  assumes "build_location_chart (locations data) (location_stock_loop (dict_values (products data)) []) = Inl e"
  shows "get_dashboard_summary rp data = Inl e"
  using assms by (simp add: get_dashboard_summary_def Let_def)

lemma get_dashboard_summary_chart_error:
  assumes "build_location_chart (locations data) (location_stock_loop (dict_values (products data)) []) = Inr lc"
    and "build_category_chart rp (sum_list (map stock_level (dict_values (products data))))
           (category_counts_loop (dict_values (products data)) []) = Inl e"
  shows "get_dashboard_summary rp data = Inl e"
  using assms by (simp add: get_dashboard_summary_def Let_def)

lemma get_dashboard_summary_returns:
  assumes "build_location_chart (locations data) (location_stock_loop (dict_values (products data)) []) = Inr lc"
    and "build_category_chart rp (sum_list (map stock_level (dict_values (products data))))
           (category_counts_loop (dict_values (products data)) []) = Inr cc"
  shows "\<exists>s. get_dashboard_summary rp data = Inr s"
  using assms by (simp add: get_dashboard_summary_def Let_def)

lemma get_dashboard_summary_total:
  assumes locs: "\<forall>p \<in> set (dict_values (products data)). location_id p \<in> fst ` set (locations data)"
    and nz: "products data = [] \<or> sum_list (map stock_level (dict_values (products data))) \<noteq> 0"
    and rp: "\<forall>c t. rp c t \<noteq> None"
  shows "\<exists>s. get_dashboard_summary rp data = Inr s"
proof -
  let ?ps = "dict_values (products data)"
  have "fst ` set (location_stock_loop ?ps []) \<subseteq> fst ` set (locations data)"
    using locs by (auto simp: keys_location_stock_loop)
  then obtain lc where lc: "build_location_chart (locations data) (location_stock_loop ?ps []) = Inr lc"
    using build_location_chart_Inr by blast
  have "\<exists>cc. build_category_chart rp (sum_list (map stock_level ?ps)) (category_counts_loop ?ps []) = Inr cc"
  proof (cases "products data = []")
    case True
    then show ?thesis by (simp add: dict_values_def)
  next
    case False
    with nz have "sum_list (map stock_level ?ps) \<noteq> 0" by simp
    then show ?thesis using rp by (intro build_category_chart_Inr) auto
  qed
  then obtain cc where "build_category_chart rp (sum_list (map stock_level ?ps)) (category_counts_loop ?ps []) = Inr cc"
    by blast
  with lc show ?thesis by (rule get_dashboard_summary_returns)
qed

lemma default_summary:
  "get_dashboard_summary (\<lambda>c t. Some (c, t)) (default_data t1 t2 t3 t4) =
     Inr \<lparr>total_products_in_stock = 1170, low_stock_items = 2, out_of_stock_items = 0,
          pending_receipts = 1, pending_deliveries = 1, transfers_scheduled = 0, adjustments_pending = 0,
          summary_locations = default_locations,
          location_chart_data = [\<lparr>le_location = ''Main Warehouse'', le_stock = 1125\<rparr>,
                                 \<lparr>le_location = ''Overflow Storage'', le_stock = 45\<rparr>],
          category_chart_data =
            [\<lparr>ce_name = ''Electronics'', ce_value = 120, ce_percent = (120, 1170)\<rparr>,
             \<lparr>ce_name = ''Peripherals'', ce_value = 35, ce_percent = (35, 1170)\<rparr>,
             \<lparr>ce_name = ''Components'', ce_value = 1000, ce_percent = (1000, 1170)\<rparr>,
             \<lparr>ce_name = ''Apparel'', ce_value = 10, ce_percent = (10, 1170)\<rparr>,
             \<lparr>ce_name = ''Home Goods'', ce_value = 5, ce_percent = (5, 1170)\<rparr>]\<rparr>"
  by (simp add: get_dashboard_summary_def default_data_def default_products_def default_locations_def
        D001_def R002_def T003_def A004_def dict_values_def dict_set_def dict_get_def
        LOW_STOCK_THRESHOLD_def Let_def)

section \<open>Claims about the dashboard summary\<close>

text \<open>
  Claim C2: the \<^verbatim>\<open>total_products_in_stock\<close> of the summary is the sum of \<^verbatim>\<open>stock_level\<close> over
  all products; with no products the summary is returned and the total is 0. A summary with
  that total is returned, too, whenever every \<^verbatim>\<open>location_id\<close> is a key of the locations, the
  sum is not 0 and the percent computation does not overflow.
\<close>

theorem total_products_in_stock_sum:
  "(get_dashboard_summary round_percent data = Inr s \<longrightarrow>
      total_products_in_stock s = (\<Sum>p\<leftarrow>dict_values (products data). stock_level p)) \<and>
   (products data = [] \<longrightarrow>
      (\<exists>s. get_dashboard_summary round_percent data = Inr s \<and> total_products_in_stock s = 0)) \<and>
   ((\<forall>p \<in> set (dict_values (products data)). location_id p \<in> fst ` set (locations data)) \<and>
    (\<Sum>p\<leftarrow>dict_values (products data). stock_level p) \<noteq> 0 \<and>
    (\<forall>c t. round_percent c t \<noteq> None) \<longrightarrow>
      (\<exists>s. get_dashboard_summary round_percent data = Inr s \<and>
           total_products_in_stock s = (\<Sum>p\<leftarrow>dict_values (products data). stock_level p)))"
proof (intro conjI impI)
  assume "get_dashboard_summary round_percent data = Inr s"
  then show "total_products_in_stock s = (\<Sum>p\<leftarrow>dict_values (products data). stock_level p)"
    by (rule get_dashboard_summary_InrD(1))
next
  assume "products data = []"
  then show "\<exists>s. get_dashboard_summary round_percent data = Inr s \<and> total_products_in_stock s = 0"
    by (simp add: get_dashboard_summary_def dict_values_def Let_def)
next
  assume a: "(\<forall>p \<in> set (dict_values (products data)). location_id p \<in> fst ` set (locations data)) \<and>
    (\<Sum>p\<leftarrow>dict_values (products data). stock_level p) \<noteq> 0 \<and>
    (\<forall>c t. round_percent c t \<noteq> None)"
  then obtain s where s: "get_dashboard_summary round_percent data = Inr s"
    using get_dashboard_summary_total [of data round_percent] by blast
  then have "total_products_in_stock s = (\<Sum>p\<leftarrow>dict_values (products data). stock_level p)"
    by (rule get_dashboard_summary_InrD(1))
  with s show "\<exists>s. get_dashboard_summary round_percent data = Inr s \<and>
           total_products_in_stock s = (\<Sum>p\<leftarrow>dict_values (products data). stock_level p)"
    by blast
qed

theorem total_products_in_stock_sum_witness:
  "(\<exists>s. get_dashboard_summary (\<lambda>c t. Some (c, t)) (default_data ''t1'' ''t2'' ''t3'' ''t4'') = Inr s \<and>
        total_products_in_stock s = 120 + 35 + 1000 + 10 + 5) \<and>
   (\<exists>s. get_dashboard_summary (\<lambda>c t. Some (c, t))
          \<lparr>products = [], documents = [], locations = []\<rparr> = Inr s \<and>
        total_products_in_stock s = 0)"
proof -
  let ?rp = "\<lambda>c t :: int. Some (c, t)"
  let ?data = "default_data ''t1'' ''t2'' ''t3'' ''t4''"
  have locs: "\<forall>p \<in> set (dict_values (products ?data)). location_id p \<in> fst ` set (locations ?data)"
    by (simp add: default_data_def default_products_def default_locations_def dict_values_def)
  have total: "(\<Sum>p\<leftarrow>dict_values (products ?data). stock_level p) = 120 + 35 + 1000 + 10 + 5"
    by (simp add: default_data_def default_products_def dict_values_def)
  have rp: "\<forall>c t. ?rp c t \<noteq> None" by simp
  have "\<exists>s. get_dashboard_summary ?rp ?data = Inr s \<and> total_products_in_stock s = 120 + 35 + 1000 + 10 + 5"
    using total_products_in_stock_sum [of ?rp ?data] locs rp unfolding total by simp
  moreover have "\<exists>s. get_dashboard_summary ?rp \<lparr>products = [], documents = [], locations = []\<rparr> = Inr s \<and>
                     total_products_in_stock s = 0"
    using total_products_in_stock_sum [of ?rp "\<lparr>products = [], documents = [], locations = []\<rparr>"]
    by simp
  ultimately show ?thesis by blast
qed

text \<open>
  Claim C3: with the threshold 20, every product falls in exactly one of three classes.
  \<^verbatim>\<open>out_of_stock_items\<close> is the number of products the comprehension with \<^verbatim>\<open>stock_level == 0\<close>
  keeps, \<^verbatim>\<open>low_stock_items\<close> the number the comprehension with
  \<^verbatim>\<open>0 < stock_level <= LOW_STOCK_THRESHOLD\<close> keeps. A product with stock level 0 is in the first list
  and not in the second; one with a stock level from 1 to 20 is in the second and not in the
  first; one with a stock level above 20 is in neither; the three ranges exclude each other, and
  the three classes together count every product once. The stock levels are those of the data
  model: not negative.
\<close>

theorem stock_classes:
  assumes "get_dashboard_summary round_percent data = Inr s"
    and "\<forall>p \<in> set (dict_values (products data)). 0 \<le> stock_level p"
  shows "out_of_stock_items s = length [p \<leftarrow> dict_values (products data). stock_level p = 0] \<and>
         low_stock_items s =
           length [p \<leftarrow> dict_values (products data). 0 < stock_level p \<and> stock_level p \<le> LOW_STOCK_THRESHOLD] \<and>
         LOW_STOCK_THRESHOLD = 20 \<and>
         (\<forall>p \<in> set (dict_values (products data)).
            (stock_level p = 0 \<and>
               p \<in> set [p \<leftarrow> dict_values (products data). stock_level p = 0] \<and>
               p \<notin> set [p \<leftarrow> dict_values (products data). 0 < stock_level p \<and> stock_level p \<le> LOW_STOCK_THRESHOLD] \<and>
               \<not> (1 \<le> stock_level p \<and> stock_level p \<le> 20) \<and> \<not> 20 < stock_level p) \<or>
            (1 \<le> stock_level p \<and> stock_level p \<le> 20 \<and>
               p \<in> set [p \<leftarrow> dict_values (products data). 0 < stock_level p \<and> stock_level p \<le> LOW_STOCK_THRESHOLD] \<and>
               p \<notin> set [p \<leftarrow> dict_values (products data). stock_level p = 0] \<and>
               stock_level p \<noteq> 0 \<and> \<not> 20 < stock_level p) \<or>
            (20 < stock_level p \<and>
               p \<notin> set [p \<leftarrow> dict_values (products data). stock_level p = 0] \<and>
               p \<notin> set [p \<leftarrow> dict_values (products data). 0 < stock_level p \<and> stock_level p \<le> LOW_STOCK_THRESHOLD] \<and>
               stock_level p \<noteq> 0 \<and> \<not> (1 \<le> stock_level p \<and> stock_level p \<le> 20))) \<and>
         out_of_stock_items s + low_stock_items s + length [p \<leftarrow> dict_values (products data). 20 < stock_level p]
           = length (dict_values (products data))"
proof -
  let ?ps = "dict_values (products data)"
  have out: "out_of_stock_items s = length [p \<leftarrow> ?ps. stock_level p = 0]"
    using assms(1) by (rule get_dashboard_summary_InrD(3))
  have low: "low_stock_items s = length [p \<leftarrow> ?ps. stock_level p > 0 \<and> stock_level p \<le> LOW_STOCK_THRESHOLD]"
    using assms(1) by (rule get_dashboard_summary_InrD(2))
  have part: "length [p \<leftarrow> ps. stock_level p = 0]
                + length [p \<leftarrow> ps. 0 < stock_level p \<and> stock_level p \<le> LOW_STOCK_THRESHOLD]
                + length [p \<leftarrow> ps. 20 < stock_level p] = length ps"
    if "\<forall>p \<in> set ps. 0 \<le> stock_level p" for ps :: "product list"
    using that by (induction ps) (auto simp: LOW_STOCK_THRESHOLD_def)
  have cls: "(stock_level p = 0 \<and>
               p \<in> set [p \<leftarrow> ?ps. stock_level p = 0] \<and>
               p \<notin> set [p \<leftarrow> ?ps. 0 < stock_level p \<and> stock_level p \<le> LOW_STOCK_THRESHOLD] \<and>
               \<not> (1 \<le> stock_level p \<and> stock_level p \<le> 20) \<and> \<not> 20 < stock_level p) \<or>
            (1 \<le> stock_level p \<and> stock_level p \<le> 20 \<and>
               p \<in> set [p \<leftarrow> ?ps. 0 < stock_level p \<and> stock_level p \<le> LOW_STOCK_THRESHOLD] \<and>
               p \<notin> set [p \<leftarrow> ?ps. stock_level p = 0] \<and>
               stock_level p \<noteq> 0 \<and> \<not> 20 < stock_level p) \<or>
            (20 < stock_level p \<and>
               p \<notin> set [p \<leftarrow> ?ps. stock_level p = 0] \<and>
               p \<notin> set [p \<leftarrow> ?ps. 0 < stock_level p \<and> stock_level p \<le> LOW_STOCK_THRESHOLD] \<and>
               stock_level p \<noteq> 0 \<and> \<not> (1 \<le> stock_level p \<and> stock_level p \<le> 20))"
    if "p \<in> set ?ps" for p
  proof -
    from that assms(2) have "0 \<le> stock_level p" by blast
    then consider "stock_level p = 0" | "1 \<le> stock_level p \<and> stock_level p \<le> 20" | "20 < stock_level p"
      by linarith
    then show ?thesis using that by cases (simp_all add: LOW_STOCK_THRESHOLD_def)
  qed
  show ?thesis
    using out low part [OF assms(2)] cls by (simp add: LOW_STOCK_THRESHOLD_def)
qed

theorem stock_classes_witness:
  "\<exists>s. get_dashboard_summary (\<lambda>c t. Some (c, t))
          \<lparr>products = map (\<lambda>(n, k, p). (k, p\<lparr>stock_level := n\<rparr>)) (zip [0, 1, 20, 21, 120] default_products),
           documents = [], locations = default_locations\<rparr> = Inr s \<and>
       out_of_stock_items s = 1 \<and> low_stock_items s = 2 \<and>
       out_of_stock_items s + low_stock_items s + 2 = 5"
proof -
  let ?data = "\<lparr>products = map (\<lambda>(n, k, p). (k, p\<lparr>stock_level := n\<rparr>)) (zip [0, 1, 20, 21, 120] default_products),
           documents = [], locations = default_locations\<rparr>"
  have "\<exists>s. get_dashboard_summary (\<lambda>c t. Some (c, t)) ?data = Inr s"
    by (rule get_dashboard_summary_total)
       (simp_all add: default_products_def default_locations_def dict_values_def)
  then obtain s :: "(int \<times> int) summary" where s: "get_dashboard_summary (\<lambda>c t. Some (c, t)) ?data = Inr s"
    by blast
  have inv: "\<forall>p \<in> set (dict_values (products ?data)). 0 \<le> stock_level p"
    by (simp add: default_products_def dict_values_def)
  show ?thesis
    using stock_classes [OF s inv] s
    by (simp add: default_products_def dict_values_def)
qed

text \<open>
  Claim C4: \<^verbatim>\<open>adjustments_pending\<close> counts the documents of type Adjustment whose status is
  Draft, Waiting or Ready; \<^verbatim>\<open>pending_receipts\<close>, \<^verbatim>\<open>pending_deliveries\<close> and
  \<^verbatim>\<open>transfers_scheduled\<close> count the documents of type Receipt, Delivery and Internal whose
  status is Waiting or Ready, and no Draft.
\<close>

theorem pending_counters:
  assumes "get_dashboard_summary round_percent data = Inr s"
  shows "adjustments_pending s =
           length [d \<leftarrow> dict_values (documents data).
                     doc_type d = ''Adjustment'' \<and>
                     (status d = ''Draft'' \<or> status d = ''Waiting'' \<or> status d = ''Ready'')] \<and>
         pending_receipts s =
           length [d \<leftarrow> dict_values (documents data).
                     doc_type d = ''Receipt'' \<and> (status d = ''Waiting'' \<or> status d = ''Ready'')] \<and>
         pending_deliveries s =
           length [d \<leftarrow> dict_values (documents data).
                     doc_type d = ''Delivery'' \<and> (status d = ''Waiting'' \<or> status d = ''Ready'')] \<and>
         transfers_scheduled s =
           length [d \<leftarrow> dict_values (documents data).
                     doc_type d = ''Internal'' \<and> (status d = ''Waiting'' \<or> status d = ''Ready'')]"
  using get_dashboard_summary_InrD(4-7) [OF assms]
  by (simp add: disj_commute conj_disj_distribL cong: conj_cong)

theorem pending_counters_witness:
  "\<exists>s. get_dashboard_summary (\<lambda>c t. Some (c, t))
          \<lparr>products = [],
           documents = [(''A1'', (A004 ''t1'')\<lparr>status := ''Draft''\<rparr>),
                        (''R1'', (R002 ''t2'')\<lparr>status := ''Draft''\<rparr>),
                        (''D1'', (D001 ''t3'')\<lparr>status := ''Draft''\<rparr>),
                        (''T1'', T003 ''t4''),
                        (''A2'', A004 ''t5''),
                        (''R2'', R002 ''t6''),
                        (''D2'', D001 ''t7''),
                        (''T2'', (T003 ''t8'')\<lparr>status := ''Waiting''\<rparr>)],
           locations = []\<rparr> = Inr s \<and>
       adjustments_pending s = 1 \<and> pending_receipts s = 1 \<and> pending_deliveries s = 1 \<and>
       transfers_scheduled s = 1"
proof -
  let ?data = "\<lparr>products = [],
           documents = [(''A1'', (A004 ''t1'')\<lparr>status := ''Draft''\<rparr>),
                        (''R1'', (R002 ''t2'')\<lparr>status := ''Draft''\<rparr>),
                        (''D1'', (D001 ''t3'')\<lparr>status := ''Draft''\<rparr>),
                        (''T1'', T003 ''t4''),
                        (''A2'', A004 ''t5''),
                        (''R2'', R002 ''t6''),
                        (''D2'', D001 ''t7''),
                        (''T2'', (T003 ''t8'')\<lparr>status := ''Waiting''\<rparr>)],
           locations = []\<rparr>"
  have "\<exists>s. get_dashboard_summary (\<lambda>c t. Some (c, t)) ?data = Inr s"
    by (rule get_dashboard_summary_total) (simp_all add: dict_values_def)
  then obtain s :: "(int \<times> int) summary" where s: "get_dashboard_summary (\<lambda>c t. Some (c, t)) ?data = Inr s"
    by blast
  show ?thesis
    using pending_counters [OF s] s
    by (simp add: dict_values_def D001_def R002_def T003_def A004_def)
qed

text \<open>
  Claim C9: the values of \<^verbatim>\<open>category_chart_data\<close> add up to \<^verbatim>\<open>total_products_in_stock\<close>. This
  holds for the dictionary \<^verbatim>\<open>category_counts\<close> that the loop builds, on every product
  collection, and for the entries of every summary that is returned. With at least one product
  a summary is returned whenever every \<^verbatim>\<open>location_id\<close> is a key of the locations, the total
  is not 0 and the percent computation does not overflow.
\<close>

theorem category_values_sum:
  "(\<Sum>(cat, cnt)\<leftarrow>category_counts_loop (dict_values (products data)) []. cnt)
     = (\<Sum>p\<leftarrow>dict_values (products data). stock_level p) \<and>
   (get_dashboard_summary round_percent data = Inr s \<longrightarrow>
      (\<Sum>e\<leftarrow>category_chart_data s. ce_value e) = total_products_in_stock s) \<and>
   (products data \<noteq> [] \<and>
    (\<forall>p \<in> set (dict_values (products data)). location_id p \<in> fst ` set (locations data)) \<and>
    (\<Sum>p\<leftarrow>dict_values (products data). stock_level p) \<noteq> 0 \<and>
    (\<forall>c t. round_percent c t \<noteq> None) \<longrightarrow>
      (\<exists>s'. get_dashboard_summary round_percent data = Inr s' \<and>
            (\<Sum>e\<leftarrow>category_chart_data s'. ce_value e) = total_products_in_stock s'))"
proof (intro conjI impI)
  have "(\<lambda>(cat, cnt). cnt) = (snd :: string \<times> int \<Rightarrow> int)" by auto
  then show "(\<Sum>(cat, cnt)\<leftarrow>category_counts_loop (dict_values (products data)) []. cnt)
     = (\<Sum>p\<leftarrow>dict_values (products data). stock_level p)"
    by (simp add: sum_category_counts_loop)
next
  assume s: "get_dashboard_summary round_percent data = Inr s"
  have "map ce_value (category_chart_data s) = map snd (category_counts_loop (dict_values (products data)) [])"
    using build_category_chart_value [OF get_dashboard_summary_InrD(9) [OF s]] by simp
  then show "(\<Sum>e\<leftarrow>category_chart_data s. ce_value e) = total_products_in_stock s"
    by (simp add: sum_category_counts_loop get_dashboard_summary_InrD(1) [OF s])
next
  assume "products data \<noteq> [] \<and>
    (\<forall>p \<in> set (dict_values (products data)). location_id p \<in> fst ` set (locations data)) \<and>
    (\<Sum>p\<leftarrow>dict_values (products data). stock_level p) \<noteq> 0 \<and>
    (\<forall>c t. round_percent c t \<noteq> None)"
  then obtain s' where s': "get_dashboard_summary round_percent data = Inr s'"
    using get_dashboard_summary_total [of data round_percent] by blast
  have "map ce_value (category_chart_data s') = map snd (category_counts_loop (dict_values (products data)) [])"
    using build_category_chart_value [OF get_dashboard_summary_InrD(9) [OF s']] by simp
  then have "(\<Sum>e\<leftarrow>category_chart_data s'. ce_value e) = total_products_in_stock s'"
    by (simp add: sum_category_counts_loop get_dashboard_summary_InrD(1) [OF s'])
  with s' show "\<exists>s'. get_dashboard_summary round_percent data = Inr s' \<and>
            (\<Sum>e\<leftarrow>category_chart_data s'. ce_value e) = total_products_in_stock s'"
    by blast
qed

theorem category_values_sum_witness:
  "\<exists>s. get_dashboard_summary (\<lambda>c t. Some (c, t)) (default_data ''t1'' ''t2'' ''t3'' ''t4'') = Inr s \<and>
       map ce_value (category_chart_data s) = [120, 35, 1000, 10, 5] \<and>
       (\<Sum>e\<leftarrow>category_chart_data s. ce_value e) = 1170 \<and> total_products_in_stock s = 1170"
proof -
  let ?rp = "\<lambda>c t :: int. Some (c, t)"
  let ?data = "default_data ''t1'' ''t2'' ''t3'' ''t4''"
  have ne: "products ?data \<noteq> []"
    by (simp add: default_data_def default_products_def)
  have locs: "\<forall>p \<in> set (dict_values (products ?data)). location_id p \<in> fst ` set (locations ?data)"
    by (simp add: default_data_def default_products_def default_locations_def dict_values_def)
  have total: "(\<Sum>p\<leftarrow>dict_values (products ?data). stock_level p) \<noteq> 0"
    by (simp add: default_data_def default_products_def dict_values_def)
  have rp: "\<forall>c t. ?rp c t \<noteq> None" by simp
  obtain s where s: "get_dashboard_summary ?rp ?data = Inr s"
      and sum: "(\<Sum>e\<leftarrow>category_chart_data s. ce_value e) = total_products_in_stock s"
    using category_values_sum [of ?data ?rp] ne locs total rp by blast
  from s sum show ?thesis
    by (auto simp: default_summary)
qed

text \<open>
  Claim C10: when some product's \<^verbatim>\<open>location_id\<close> is not a key of the locations, building
  \<^verbatim>\<open>location_chart_data\<close> raises \<^verbatim>\<open>KeyError\<close>, for a location id of a product that the
  locations lack, and no summary is produced.
\<close>

theorem missing_location_raises:
  assumes "p \<in> set (dict_values (products data))"
    and "location_id p \<notin> fst ` set (locations data)"
  shows "\<exists>k. get_dashboard_summary round_percent data = Inl (KeyError k) \<and>
             k \<in> location_id ` set (dict_values (products data)) \<and>
             k \<notin> fst ` set (locations data)"
proof -
  let ?ls = "location_stock_loop (dict_values (products data)) []"
  have "\<not> fst ` set ?ls \<subseteq> fst ` set (locations data)"
    using assms by (auto simp: keys_location_stock_loop)
  then have "\<nexists>es. build_location_chart (locations data) ?ls = Inr es"
    by (simp add: build_location_chart_Inr)
  then obtain e where e: "build_location_chart (locations data) ?ls = Inl e"
    by (cases "build_location_chart (locations data) ?ls") auto
  from build_location_chart_Inl [OF e] obtain k
    where k: "e = KeyError k" "k \<in> fst ` set ?ls" "k \<notin> fst ` set (locations data)" by blast
  from k(2) have "k \<in> location_id ` set (dict_values (products data))"
    by (simp add: keys_location_stock_loop)
  moreover have "get_dashboard_summary round_percent data = Inl (KeyError k)"
    using get_dashboard_summary_KeyError [OF e] k(1) by simp
  ultimately show ?thesis using k(3) by blast
qed

theorem missing_location_raises_witness:
  "get_dashboard_summary (\<lambda>c t. Some (c, t))
     ((default_data ''t1'' ''t2'' ''t3'' ''t4'')\<lparr>locations := [hd default_locations]\<rparr>)
   = Inl (KeyError ''W002'')"
proof -
  let ?data = "(default_data ''t1'' ''t2'' ''t3'' ''t4'')\<lparr>locations := [hd default_locations]\<rparr>"
  let ?p = "snd (default_products ! 1)"
  have "?p \<in> set (dict_values (products ?data))"
    by (simp add: default_data_def default_products_def dict_values_def)
  moreover have "location_id ?p \<notin> fst ` set (locations ?data)"
    by (simp add: default_data_def default_products_def default_locations_def)
  ultimately obtain k where "get_dashboard_summary (\<lambda>c t. Some (c, t)) ?data = Inl (KeyError k)"
     and "k \<in> location_id ` set (dict_values (products ?data))" and "k \<notin> fst ` set (locations ?data)"
    using missing_location_raises [of ?p ?data "\<lambda>c t. Some (c, t)"] by blast
  then show ?thesis
    by (auto simp: default_data_def default_products_def default_locations_def dict_values_def)
qed

text \<open>
  Claim C1 says that a snapshot whose products all have \<^verbatim>\<open>stock_level\<close> 0 gets a summary, with
  every percent \<open>0.0\<close>. The code has no guard before \<^verbatim>\<open>count / total_stock\<close>: when there is at
  least one product, every stock level is 0 and every \<^verbatim>\<open>location_id\<close> is a key of the locations
  (so that the location chart is built), the category chart has an entry to compute, the division
  is by zero, and the endpoint raises \<^verbatim>\<open>ZeroDivisionError\<close> instead of returning a summary.
\<close>

theorem all_out_of_stock_raises:
  assumes "products data \<noteq> []"
    and "\<forall>p \<in> set (dict_values (products data)). stock_level p = 0"
    and "\<forall>p \<in> set (dict_values (products data)). location_id p \<in> fst ` set (locations data)"
  shows "get_dashboard_summary round_percent data = Inl ZeroDivisionError"
proof -
  let ?ps = "dict_values (products data)"
  have "fst ` set (location_stock_loop ?ps []) \<subseteq> fst ` set (locations data)"
    using assms(3) by (auto simp: keys_location_stock_loop)
  then obtain lc where lc: "build_location_chart (locations data) (location_stock_loop ?ps []) = Inr lc"
    using build_location_chart_Inr by blast
  have "sum_list (map stock_level ps) = 0" if "\<forall>p \<in> set ps. stock_level p = 0" for ps :: "product list"
    using that by (induction ps) auto
  from this [OF assms(2)] have zero: "sum_list (map stock_level ?ps) = 0" .
  have "?ps \<noteq> []" using assms(1) by (simp add: dict_values_def)
  then have "fst ` set (category_counts_loop ?ps []) \<noteq> {}"
    by (simp add: keys_category_counts_loop)
  then have "category_counts_loop ?ps [] \<noteq> []" by auto
  then have "build_category_chart round_percent (sum_list (map stock_level ?ps)) (category_counts_loop ?ps [])
               = Inl ZeroDivisionError"
    unfolding zero by (rule build_category_chart_zero)
  with lc show ?thesis by (rule get_dashboard_summary_chart_error)
qed

theorem all_out_of_stock_raises_witness:
  "get_dashboard_summary (\<lambda>c t. Some (c, t))
     \<lparr>products = [(''P0D0E0F0'', \<lparr>prod_id = ''P0D0E0F0'', category = ''Home Goods'',
                     prod_name = ''Cleaning Wipes'', location_id = ''W001'', stock_level = 0,
                     reorder_point = 10\<rparr>)],
      documents = [],
      locations = default_locations\<rparr>
   = Inl ZeroDivisionError"
  by (rule all_out_of_stock_raises) (simp_all add: dict_values_def default_locations_def)

section \<open>Properties of the filter blocks and the sort\<close>

lemma active_iff: "truthy v \<and> isinstance_list v \<longleftrightarrow> (\<exists>x xs. v = JList (x # xs))"
  by (cases v) (auto simp: neq_Nil_conv)

lemma filter_by_document_type_inactive:
  "\<not> (truthy v \<and> isinstance_list v) \<Longrightarrow> filter_by_document_type v docs = docs"
  by (auto simp: filter_by_document_type_def)

lemma filter_by_status_inactive:
  "\<not> (truthy v \<and> isinstance_list v) \<Longrightarrow> filter_by_status v docs = docs"
  by (auto simp: filter_by_status_def)

lemma filter_by_location_inactive:
  "\<not> (truthy v \<and> isinstance_list v) \<Longrightarrow> filter_by_location v docs = docs"
  by (auto simp: filter_by_location_def)

lemma filter_by_category_inactive:
  "\<not> (truthy v \<and> isinstance_list v) \<Longrightarrow> filter_by_category v docs = docs"
  by (auto simp: filter_by_category_def)

lemma filter_by_document_type_filter:
  "filter_by_document_type v docs = [doc \<leftarrow> docs. filter_by_document_type v [doc] = [doc]]"
  by (simp add: filter_by_document_type_def)

lemma filter_by_status_filter:
  "filter_by_status v docs = [doc \<leftarrow> docs. filter_by_status v [doc] = [doc]]"
  by (simp add: filter_by_status_def)

lemma filter_by_location_filter:
  "filter_by_location v docs = [doc \<leftarrow> docs. filter_by_location v [doc] = [doc]]"
  by (simp add: filter_by_location_def)

lemma filter_by_category_filter:
  "filter_by_category v docs = [doc \<leftarrow> docs. filter_by_category v [doc] = [doc]]"
  by (simp add: filter_by_category_def)

lemma apply_filters_filter:
  "apply_filters filters docs =
     [doc \<leftarrow> docs.
        filter_by_document_type (filters_get filters ''document_type'') [doc] = [doc] \<and>
        filter_by_status (filters_get filters ''status'') [doc] = [doc] \<and>
        filter_by_location (filters_get filters ''location'') [doc] = [doc] \<and>
        filter_by_category (filters_get filters ''category'') [doc] = [doc]]"
proof -
  have "apply_filters filters docs =
      filter_by_category (filters_get filters ''category'')
        (filter_by_location (filters_get filters ''location'')
          (filter_by_status (filters_get filters ''status'')
            (filter_by_document_type (filters_get filters ''document_type'') docs)))"
    by (simp add: apply_filters_def Let_def)
  also have "\<dots> = [doc \<leftarrow> docs.
        filter_by_document_type (filters_get filters ''document_type'') [doc] = [doc] \<and>
        filter_by_status (filters_get filters ''status'') [doc] = [doc] \<and>
        filter_by_location (filters_get filters ''location'') [doc] = [doc] \<and>
        filter_by_category (filters_get filters ''category'') [doc] = [doc]]"
    apply (subst filter_by_category_filter)
    apply (subst filter_by_location_filter)
    apply (subst filter_by_status_filter)
    apply (subst filter_by_document_type_filter)
    apply (simp add: conj_commute conj_left_commute cong: conj_cong)
    done
  finally show ?thesis .
qed

lemma filters_get_absent: "map_of filters k = None \<Longrightarrow> filters_get filters k = JNull"
  by (simp add: filters_get_def dict_get_def)

lemma filters_get_present: "map_of filters k = Some v \<Longrightarrow> filters_get filters k = v"
  by (simp add: filters_get_def dict_get_def)

lemma sorted_py_sort_reverse:
  "sorted_wrt (\<lambda>a b. key a \<ge> key b) (py_sort_reverse key xs)"
proof -
  have "sorted (map key (sort_key key (rev xs)))" by simp
  then have "sorted_wrt (\<lambda>a b. key a \<le> key b) (sort_key key (rev xs))"
    by (simp add: sorted_map)
  then show ?thesis
    by (simp add: py_sort_reverse_def sorted_wrt_rev)
qed

lemma mset_py_sort_reverse: "mset (py_sort_reverse key xs) = mset xs"
  by (simp add: py_sort_reverse_def)

lemma length_py_sort_reverse: "length (py_sort_reverse key xs) = length xs"
  by (simp add: py_sort_reverse_def)

lemma py_sort_reverse_stable:
  "[x \<leftarrow> py_sort_reverse key xs. key x = k] = [x \<leftarrow> xs. key x = k]"
  by (simp add: py_sort_reverse_def rev_filter [symmetric] sort_key_stable)

lemma field_tests:
  assumes "ls \<noteq> []"
  shows "filter_by_document_type (JList ls) [doc] = [doc] \<longleftrightarrow> JStr (doc_type doc) \<in> set ls"
    and "filter_by_status (JList ls) [doc] = [doc] \<longleftrightarrow> JStr (status doc) \<in> set ls"
    and "filter_by_location (JList ls) [doc] = [doc] \<longleftrightarrow>
           doc_get (source_location doc) \<in> set ls \<or> doc_get (target_location doc) \<in> set ls"
    and "filter_by_category (JList ls) [doc] = [doc] \<longleftrightarrow>
           (\<exists>c \<in> set (case category_list doc of None \<Rightarrow> [] | Some cl \<Rightarrow> cl). JStr c \<in> set ls)"
  using assms
  by (simp_all add: filter_by_document_type_def filter_by_status_def filter_by_location_def
        filter_by_category_def list_ex_iff)

text \<open>
  The test of each field, read off the filter object itself: \<open>map_of filters k\<close> is the
  value under the key \<open>k\<close>, if there is one.
\<close>

lemma filters_get_map_of:
  "filters_get filters k = (case map_of filters k of None \<Rightarrow> JNull | Some v \<Rightarrow> v)"
  by (simp add: filters_get_def dict_get_def)

lemma document_type_test:
  "filter_by_document_type (filters_get filters ''document_type'') [doc] = [doc] \<longleftrightarrow>
     (case map_of filters ''document_type'' of
        Some (JList (x # xs)) \<Rightarrow> JStr (doc_type doc) \<in> set (x # xs)
      | _ \<Rightarrow> True)"
  by (simp add: filters_get_map_of filter_by_document_type_def
        split: option.splits json.splits list.splits)

lemma status_test:
  "filter_by_status (filters_get filters ''status'') [doc] = [doc] \<longleftrightarrow>
     (case map_of filters ''status'' of
        Some (JList (x # xs)) \<Rightarrow> JStr (status doc) \<in> set (x # xs)
      | _ \<Rightarrow> True)"
  by (simp add: filters_get_map_of filter_by_status_def
        split: option.splits json.splits list.splits)

lemma doc_get_member:
  "doc_get field \<in> set ls \<longleftrightarrow>
     (field = None \<and> JNull \<in> set ls) \<or> (\<exists>l. field = Some l \<and> JStr l \<in> set ls)"
  by (cases field) auto

lemma location_test:
  "filter_by_location (filters_get filters ''location'') [doc] = [doc] \<longleftrightarrow>
     (case map_of filters ''location'' of
        Some (JList (x # xs)) \<Rightarrow>
          (source_location doc = None \<and> JNull \<in> set (x # xs)) \<or>
          (\<exists>l. source_location doc = Some l \<and> JStr l \<in> set (x # xs)) \<or>
          (target_location doc = None \<and> JNull \<in> set (x # xs)) \<or>
          (\<exists>l. target_location doc = Some l \<and> JStr l \<in> set (x # xs))
      | _ \<Rightarrow> True)"
proof -
  have "filter_by_location (filters_get filters ''location'') [doc] = [doc] \<longleftrightarrow>
     (case map_of filters ''location'' of
        Some (JList (x # xs)) \<Rightarrow>
          doc_get (source_location doc) \<in> set (x # xs) \<or> doc_get (target_location doc) \<in> set (x # xs)
      | _ \<Rightarrow> True)"
    by (simp add: filters_get_map_of filter_by_location_def
        split: option.splits json.splits list.splits)
  then show ?thesis
    unfolding doc_get_member by (simp add: disj_ac cong: option.case_cong json.case_cong list.case_cong)
qed

lemma category_test:
  "filter_by_category (filters_get filters ''category'') [doc] = [doc] \<longleftrightarrow>
     (case map_of filters ''category'' of
        Some (JList (x # xs)) \<Rightarrow>
          (\<exists>cl c. category_list doc = Some cl \<and> c \<in> set cl \<and> JStr c \<in> set (x # xs))
      | _ \<Rightarrow> True)"
proof -
  have cat: "list_ex (\<lambda>c. JStr c \<in> S) (case category_list doc of None \<Rightarrow> [] | Some cl \<Rightarrow> cl) \<longleftrightarrow>
               (\<exists>cl c. category_list doc = Some cl \<and> c \<in> set cl \<and> JStr c \<in> S)" for S
    by (cases "category_list doc") (auto simp: list_ex_iff)
  show ?thesis
  proof (cases "map_of filters ''category''")
    case None
    then show ?thesis by (simp add: filters_get_map_of filter_by_category_def)
  next
    case (Some v)
    show ?thesis
    proof (cases "\<exists>x xs. v = JList (x # xs)")
      case True
      then obtain x xs where v: "v = JList (x # xs)" by blast
      show ?thesis
        using cat [of "set (x # xs)"]
        by (simp add: Some v filters_get_map_of filter_by_category_def)
    next
      case False
      then have "\<not> (truthy v \<and> isinstance_list v)" by (simp add: active_iff)
      then have "filter_by_category v [doc] = [doc]" by (rule filter_by_category_inactive)
      moreover from False have "(case Some v of
          Some (JList (x # xs)) \<Rightarrow>
            (\<exists>cl c. category_list doc = Some cl \<and> c \<in> set cl \<and> JStr c \<in> set (x # xs))
        | _ \<Rightarrow> True)"
        by (auto split: json.splits list.splits)
      ultimately show ?thesis by (simp add: Some filters_get_map_of)
    qed
  qed
qed

lemma apply_filters_explicit:
  "apply_filters filters docs =
     [doc \<leftarrow> docs.
        (case map_of filters ''document_type'' of
           Some (JList (x # xs)) \<Rightarrow> JStr (doc_type doc) \<in> set (x # xs)
         | _ \<Rightarrow> True) \<and>
        (case map_of filters ''status'' of
           Some (JList (x # xs)) \<Rightarrow> JStr (status doc) \<in> set (x # xs)
         | _ \<Rightarrow> True) \<and>
        (case map_of filters ''location'' of
           Some (JList (x # xs)) \<Rightarrow>
             (source_location doc = None \<and> JNull \<in> set (x # xs)) \<or>
             (\<exists>l. source_location doc = Some l \<and> JStr l \<in> set (x # xs)) \<or>
             (target_location doc = None \<and> JNull \<in> set (x # xs)) \<or>
             (\<exists>l. target_location doc = Some l \<and> JStr l \<in> set (x # xs))
         | _ \<Rightarrow> True) \<and>
        (case map_of filters ''category'' of
           Some (JList (x # xs)) \<Rightarrow>
             (\<exists>cl c. category_list doc = Some cl \<and> c \<in> set cl \<and> JStr c \<in> set (x # xs))
         | _ \<Rightarrow> True)]"
  unfolding apply_filters_filter [of filters docs]
  by (simp only: document_type_test status_test location_test category_test)

text \<open>Two queries on the seeded documents.\<close>

lemma default_docs_query:
  "filter_documents
     (JObj [(''status'', JList [JStr ''Waiting'', JStr ''Ready'']),
            (''document_type'', JList [JStr ''Delivery'']),
            (''location'', JStr ''W002''),
            (''category'', JList [])])
     (documents (default_data ''t1'' ''t2'' ''t3'' ''t4''))
   = Inr \<lparr>resp_count = 1, resp_documents = [D001 ''t1'']\<rparr>"
  by (simp add: default_data_def apply_filters_def filters_get_def dict_get_def dict_values_def
        filter_by_document_type_def filter_by_status_def filter_by_location_def
        filter_by_category_def py_sort_reverse_def D001_def R002_def T003_def A004_def Let_def)

lemma default_docs_sorted:
  "filter_documents (JObj [])
     (documents (default_data ''2025-01-01T10:00:00.000001'' ''2025-01-01T10:00:00.000002''
                   ''2025-01-01T10:00:00.000003'' ''2025-01-01T10:00:00.000004''))
   = Inr \<lparr>resp_count = 4,
          resp_documents = [A004 ''2025-01-01T10:00:00.000004'', T003 ''2025-01-01T10:00:00.000003'',
                            R002 ''2025-01-01T10:00:00.000002'', D001 ''2025-01-01T10:00:00.000001'']\<rparr>"
  by (simp add: default_data_def apply_filters_def filters_get_def dict_get_def dict_values_def
        filter_by_document_type_def filter_by_status_def filter_by_location_def
        filter_by_category_def py_sort_reverse_def D001_def R002_def T003_def A004_def Let_def
        less_eq_char_def less_char_def)

section \<open>Claims about the document filter\<close>

text \<open>
  Claim C5: a document survives the four passes exactly when it passes the test of every
  field of the filter object that is a non-empty list, so the filters are a conjunction. The
  tests are membership of the document's type, of its status, of the value of its source or
  target location (a missing one reading as null), and of one of its categories. A field
  that is absent reads as null, a field that is present reads as its value; a field that is
  null, an empty list, empty otherwise, or not a list leaves the documents as they are, in each
  of the four blocks. The endpoint raises nothing: it returns a response, counting the
  survivors, for every filter specification that is a JSON object, whatever its fields hold.
\<close>

theorem filters_conjunction:
  "apply_filters filters docs =
     [doc \<leftarrow> docs.
        (case map_of filters ''document_type'' of
           Some (JList (x # xs)) \<Rightarrow> JStr (doc_type doc) \<in> set (x # xs)
         | _ \<Rightarrow> True) \<and>
        (case map_of filters ''status'' of
           Some (JList (x # xs)) \<Rightarrow> JStr (status doc) \<in> set (x # xs)
         | _ \<Rightarrow> True) \<and>
        (case map_of filters ''location'' of
           Some (JList (x # xs)) \<Rightarrow>
             (source_location doc = None \<and> JNull \<in> set (x # xs)) \<or>
             (\<exists>l. source_location doc = Some l \<and> JStr l \<in> set (x # xs)) \<or>
             (target_location doc = None \<and> JNull \<in> set (x # xs)) \<or>
             (\<exists>l. target_location doc = Some l \<and> JStr l \<in> set (x # xs))
         | _ \<Rightarrow> True) \<and>
        (case map_of filters ''category'' of
           Some (JList (x # xs)) \<Rightarrow>
             (\<exists>cl c. category_list doc = Some cl \<and> c \<in> set cl \<and> JStr c \<in> set (x # xs))
         | _ \<Rightarrow> True)] \<and>
   apply_filters filters docs =
     [doc \<leftarrow> docs.
        filter_by_document_type (filters_get filters ''document_type'') [doc] = [doc] \<and>
        filter_by_status (filters_get filters ''status'') [doc] = [doc] \<and>
        filter_by_location (filters_get filters ''location'') [doc] = [doc] \<and>
        filter_by_category (filters_get filters ''category'') [doc] = [doc]] \<and>
   (\<exists>r. filter_documents (JObj filters) documents_dict = Inr r \<and>
        resp_count r = length (apply_filters filters (dict_values documents_dict))) \<and>
   (\<forall>k. map_of filters k = None \<longrightarrow> filters_get filters k = JNull) \<and>
   (\<forall>k v. map_of filters k = Some v \<longrightarrow> filters_get filters k = v) \<and>
   (\<forall>v. (\<forall>x xs. v \<noteq> JList (x # xs)) \<longrightarrow>
      filter_by_document_type v docs = docs \<and> filter_by_status v docs = docs \<and>
      filter_by_location v docs = docs \<and> filter_by_category v docs = docs) \<and>
   (\<forall>v. v = JNull \<or> v = JList [] \<or> \<not> truthy v \<or> \<not> isinstance_list v \<longrightarrow>
      filter_by_document_type v docs = docs \<and> filter_by_status v docs = docs \<and>
      filter_by_location v docs = docs \<and> filter_by_category v docs = docs) \<and>
   (\<forall>ls doc. ls \<noteq> [] \<longrightarrow>
      (filter_by_document_type (JList ls) [doc] = [doc] \<longleftrightarrow> JStr (doc_type doc) \<in> set ls) \<and>
      (filter_by_status (JList ls) [doc] = [doc] \<longleftrightarrow> JStr (status doc) \<in> set ls) \<and>
      (filter_by_location (JList ls) [doc] = [doc] \<longleftrightarrow>
         doc_get (source_location doc) \<in> set ls \<or> doc_get (target_location doc) \<in> set ls) \<and>
      (filter_by_category (JList ls) [doc] = [doc] \<longleftrightarrow>
         (\<exists>c \<in> set (case category_list doc of None \<Rightarrow> [] | Some cl \<Rightarrow> cl). JStr c \<in> set ls)))"
proof -
  have inactive: "filter_by_document_type v docs = docs \<and> filter_by_status v docs = docs \<and>
      filter_by_location v docs = docs \<and> filter_by_category v docs = docs"
    if "\<not> (truthy v \<and> isinstance_list v)" for v
    using that
    by (simp add: filter_by_document_type_inactive filter_by_status_inactive
          filter_by_location_inactive filter_by_category_inactive)
  have c3: "\<exists>r. filter_documents (JObj filters) documents_dict = Inr r \<and>
        resp_count r = length (apply_filters filters (dict_values documents_dict))"
    by (simp add: Let_def length_py_sort_reverse)
  have c4: "\<forall>k. map_of filters k = None \<longrightarrow> filters_get filters k = JNull"
    by (simp add: filters_get_absent)
  have c5: "\<forall>k v. map_of filters k = Some v \<longrightarrow> filters_get filters k = v"
    by (simp add: filters_get_present)
  have c6: "\<forall>v. (\<forall>x xs. v \<noteq> JList (x # xs)) \<longrightarrow>
      filter_by_document_type v docs = docs \<and> filter_by_status v docs = docs \<and>
      filter_by_location v docs = docs \<and> filter_by_category v docs = docs"
  proof (intro allI impI)
    fix v assume "\<forall>x xs. v \<noteq> JList (x # xs)"
    then have "\<not> (truthy v \<and> isinstance_list v)" by (simp add: active_iff)
    then show "filter_by_document_type v docs = docs \<and> filter_by_status v docs = docs \<and>
      filter_by_location v docs = docs \<and> filter_by_category v docs = docs"
      by (rule inactive)
  qed
  have c7: "\<forall>v. v = JNull \<or> v = JList [] \<or> \<not> truthy v \<or> \<not> isinstance_list v \<longrightarrow>
      filter_by_document_type v docs = docs \<and> filter_by_status v docs = docs \<and>
      filter_by_location v docs = docs \<and> filter_by_category v docs = docs"
  proof (intro allI impI)
    fix v assume "v = JNull \<or> v = JList [] \<or> \<not> truthy v \<or> \<not> isinstance_list v"
    then have "\<not> (truthy v \<and> isinstance_list v)" by auto
    then show "filter_by_document_type v docs = docs \<and> filter_by_status v docs = docs \<and>
      filter_by_location v docs = docs \<and> filter_by_category v docs = docs"
      by (rule inactive)
  qed
  have c8: "\<forall>ls doc. ls \<noteq> [] \<longrightarrow>
      (filter_by_document_type (JList ls) [doc] = [doc] \<longleftrightarrow> JStr (doc_type doc) \<in> set ls) \<and>
      (filter_by_status (JList ls) [doc] = [doc] \<longleftrightarrow> JStr (status doc) \<in> set ls) \<and>
      (filter_by_location (JList ls) [doc] = [doc] \<longleftrightarrow>
         doc_get (source_location doc) \<in> set ls \<or> doc_get (target_location doc) \<in> set ls) \<and>
      (filter_by_category (JList ls) [doc] = [doc] \<longleftrightarrow>
         (\<exists>c \<in> set (case category_list doc of None \<Rightarrow> [] | Some cl \<Rightarrow> cl). JStr c \<in> set ls))"
    using field_tests by blast
  from apply_filters_explicit [of filters docs] apply_filters_filter [of filters docs] c3 c4 c5 c6 c7 c8
  show ?thesis by (intro conjI)
qed

theorem filters_conjunction_witness:
  "apply_filters
     [(''status'', JList [JStr ''Waiting'', JStr ''Ready'']),
      (''document_type'', JList [JStr ''Delivery'']),
      (''location'', JStr ''W002''),
      (''category'', JList [])]
     (dict_values (documents (default_data ''t1'' ''t2'' ''t3'' ''t4''))) = [D001 ''t1''] \<and>
   apply_filters [(''status'', JList [JStr ''Done''])]
     (dict_values (documents (default_data ''t1'' ''t2'' ''t3'' ''t4''))) = [A004 ''t4''] \<and>
   apply_filters [(''category'', JList [JNum 7, JStr ''Components'', JStr ''Apparel'']),
                  (''location'', JList [JStr ''W001''])]
     (dict_values (documents (default_data ''t1'' ''t2'' ''t3'' ''t4''))) = [R002 ''t2''] \<and>
   filters_get [(''status'', JList [JStr ''Waiting'', JStr ''Ready''])] ''location'' = JNull \<and>
   filters_get [(''status'', JList [JStr ''Done''])] ''status'' = JList [JStr ''Done''] \<and>
   filter_by_location (JStr ''W002'') (dict_values (documents (default_data ''t1'' ''t2'' ''t3'' ''t4'')))
     = dict_values (documents (default_data ''t1'' ''t2'' ''t3'' ''t4'')) \<and>
   filter_by_category (JList []) (dict_values (documents (default_data ''t1'' ''t2'' ''t3'' ''t4'')))
     = dict_values (documents (default_data ''t1'' ''t2'' ''t3'' ''t4'')) \<and>
   filter_by_status (JList [JStr ''Waiting'', JStr ''Ready'']) [T003 ''t3''] = [] \<and>
   filter_by_document_type (JList [JStr ''Delivery'']) [D001 ''t1''] = [D001 ''t1''] \<and>
   (\<exists>r. filter_documents (JObj [(''status'', JList [JStr ''Done''])])
          (documents (default_data ''t1'' ''t2'' ''t3'' ''t4'')) = Inr r \<and> resp_count r = 1)"
proof -
  let ?filters = "[(''status'', JList [JStr ''Waiting'', JStr ''Ready'']),
      (''document_type'', JList [JStr ''Delivery'']),
      (''location'', JStr ''W002''),
      (''category'', JList [])]"
  let ?done = "[(''status'', JList [JStr ''Done''])]"
  let ?cat = "[(''category'', JList [JNum 7, JStr ''Components'', JStr ''Apparel'']),
               (''location'', JList [JStr ''W001''])]"
  let ?dd = "documents (default_data ''t1'' ''t2'' ''t3'' ''t4'')"
  let ?docs = "dict_values ?dd"
  note c = filters_conjunction [of ?filters ?docs ?dd]
  note c1 = filters_conjunction [of "[(''status'', JList [JStr ''Waiting'', JStr ''Ready''])]" ?docs "[]"]
  note d = filters_conjunction [of ?done ?docs ?dd]
  note e = filters_conjunction [of ?cat ?docs ?dd]
  have 1: "apply_filters ?filters ?docs = [D001 ''t1'']"
    using conjunct1 [OF c]
    by (simp add: default_data_def dict_values_def D001_def R002_def T003_def A004_def)
  have 2: "apply_filters ?done ?docs = [A004 ''t4'']"
    using conjunct1 [OF d]
    by (simp add: default_data_def dict_values_def D001_def R002_def T003_def A004_def)
  have 3: "apply_filters ?cat ?docs = [R002 ''t2'']"
    using conjunct1 [OF e]
    by (simp add: default_data_def dict_values_def D001_def R002_def T003_def A004_def)
  have 4: "filters_get [(''status'', JList [JStr ''Waiting'', JStr ''Ready''])] ''location'' = JNull"
    using c1 by simp
  have 5: "filters_get ?done ''status'' = JList [JStr ''Done'']"
    using d by simp
  have 6: "filter_by_location (JStr ''W002'') ?docs = ?docs"
    using c by simp
  have 7: "filter_by_category (JList []) ?docs = ?docs"
    using c by blast
  have 8: "filter_by_status (JList [JStr ''Waiting'', JStr ''Ready'']) [T003 ''t3''] = []"
    using c by (simp add: filter_by_status_def T003_def)
  have 9: "filter_by_document_type (JList [JStr ''Delivery'']) [D001 ''t1''] = [D001 ''t1'']"
    using c by (simp add: D001_def)
  have 10: "\<exists>r. filter_documents (JObj ?done) ?dd = Inr r \<and> resp_count r = 1"
    using d unfolding 2 by simp
  from 1 2 3 4 5 6 7 8 9 10 show ?thesis by blast
qed

text \<open>
  Claim C6 as stated says that a document with neither \<^verbatim>\<open>source_location\<close> nor
  \<^verbatim>\<open>target_location\<close> is excluded whenever the location field is a non-empty list. With the
  list \<^verbatim>\<open>[null]\<close> the seeded adjustment A004, which has neither field, is kept:
  \<^verbatim>\<open>doc.get('source_location')\<close> is \<^verbatim>\<open>None\<close>, and \<^verbatim>\<open>None in [None]\<close> holds.
\<close>

theorem location_null_counterexample:
  "source_location (A004 ''t4'') = None \<and> target_location (A004 ''t4'') = None \<and>
   doc_get (source_location (A004 ''t4'')) \<in> set [JNull] \<and>
   filter_by_location (JList [JNull]) [T003 ''t3'', A004 ''t4''] = [A004 ''t4''] \<and>
   filter_documents (JObj [(''location'', JList [JNull])]) [(''T003'', T003 ''t3''), (''A004'', A004 ''t4'')]
     = Inr \<lparr>resp_count = 1, resp_documents = [A004 ''t4'']\<rparr>"
  by (simp add: apply_filters_def filters_get_def dict_get_def dict_values_def
        filter_by_document_type_def filter_by_status_def filter_by_location_def
        filter_by_category_def py_sort_reverse_def T003_def A004_def Let_def)

text \<open>
  Claim C6, amended. For a location field that is a non-empty list, the location block keeps
  the documents for which \<^verbatim>\<open>doc.get('source_location')\<close> or \<^verbatim>\<open>doc.get('target_location')\<close> is in
  the list, where a missing field reads as \<^verbatim>\<open>None\<close>. When the list does not contain null, as
  every list of strings, that is: the document has a source or a target location that is in the
  list, and a document with neither field is excluded.
\<close>

theorem location_filter_members:
  assumes "ls \<noteq> []"
  shows "filter_by_location (JList ls) docs =
           [doc \<leftarrow> docs. doc_get (source_location doc) \<in> set ls \<or> doc_get (target_location doc) \<in> set ls] \<and>
         (JNull \<notin> set ls \<longrightarrow>
            filter_by_location (JList ls) docs =
              [doc \<leftarrow> docs. (\<exists>l. source_location doc = Some l \<and> JStr l \<in> set ls) \<or>
                            (\<exists>l. target_location doc = Some l \<and> JStr l \<in> set ls)] \<and>
            (\<forall>doc \<in> set docs. source_location doc = None \<and> target_location doc = None \<longrightarrow>
               doc \<notin> set (filter_by_location (JList ls) docs)))"
proof -
  have all: "filter_by_location (JList ls) docs =
           [doc \<leftarrow> docs. doc_get (source_location doc) \<in> set ls \<or> doc_get (target_location doc) \<in> set ls]"
    using assms by (simp add: filter_by_location_def)
  have get: "doc_get x \<in> set ls \<longleftrightarrow> (\<exists>l. x = Some l \<and> JStr l \<in> set ls)" if "JNull \<notin> set ls" for x
    using that by (cases x) auto
  have strs: "filter_by_location (JList ls) docs =
              [doc \<leftarrow> docs. (\<exists>l. source_location doc = Some l \<and> JStr l \<in> set ls) \<or>
                            (\<exists>l. target_location doc = Some l \<and> JStr l \<in> set ls)]"
    if "JNull \<notin> set ls"
    unfolding all by (simp add: get [OF that])
  have excl: "\<forall>doc \<in> set docs. source_location doc = None \<and> target_location doc = None \<longrightarrow>
               doc \<notin> set (filter_by_location (JList ls) docs)"
    if "JNull \<notin> set ls"
    unfolding strs [OF that] by simp
  from all strs excl show ?thesis by blast
qed

theorem location_filter_members_witness:
  "filter_by_location (JList [JStr ''W002'']) (dict_values (documents (default_data ''t1'' ''t2'' ''t3'' ''t4'')))
     = [T003 ''t3''] \<and>
   A004 ''t4'' \<notin> set (filter_by_location (JList [JStr ''W002''])
                       (dict_values (documents (default_data ''t1'' ''t2'' ''t3'' ''t4''))))"
proof -
  have ne: "[JStr ''W002''] \<noteq> []" by simp
  have nn: "JNull \<notin> set [JStr ''W002'']" by simp
  have a: "A004 ''t4'' \<in> set (dict_values (documents (default_data ''t1'' ''t2'' ''t3'' ''t4'')))"
    by (simp add: default_data_def dict_values_def)
  have b: "source_location (A004 ''t4'') = None \<and> target_location (A004 ''t4'') = None"
    by (simp add: A004_def)
  note t = location_filter_members [OF ne, of "dict_values (documents (default_data ''t1'' ''t2'' ''t3'' ''t4''))"]
  from t nn have "filter_by_location (JList [JStr ''W002'']) (dict_values (documents (default_data ''t1'' ''t2'' ''t3'' ''t4'')))
     = [T003 ''t3'']"
    by (simp add: default_data_def dict_values_def D001_def R002_def T003_def A004_def)
  moreover from t nn a b have "A004 ''t4'' \<notin> set (filter_by_location (JList [JStr ''W002''])
                       (dict_values (documents (default_data ''t1'' ''t2'' ''t3'' ''t4''))))"
    by blast
  ultimately show ?thesis by blast
qed

text \<open>
  Claim C7: for every filter object the endpoint returns a response; its \<^verbatim>\<open>documents\<close> are the
  first 15 of the matched documents sorted by \<^verbatim>\<open>created_at\<close>, latest first (the sorted list is a
  rearrangement of the matched documents in descending order of \<^verbatim>\<open>created_at\<close>), and its
  \<^verbatim>\<open>count\<close> is the number of matched documents, before the cut. With 20 matches the count
  is 20 and 15 documents are returned.
\<close>

theorem filter_documents_page:
  "\<exists>r. filter_documents (JObj filters) documents_dict = Inr r \<and>
       resp_count r = length (apply_filters filters (dict_values documents_dict)) \<and>
       resp_documents r = take 15 (py_sort_reverse created_at (apply_filters filters (dict_values documents_dict))) \<and>
       mset (py_sort_reverse created_at (apply_filters filters (dict_values documents_dict)))
         = mset (apply_filters filters (dict_values documents_dict)) \<and>
       sorted_wrt (\<lambda>a b. created_at a \<ge> created_at b)
         (py_sort_reverse created_at (apply_filters filters (dict_values documents_dict))) \<and>
       length (resp_documents r) = min 15 (resp_count r) \<and>
       (length (apply_filters filters (dict_values documents_dict)) = 20 \<longrightarrow>
          resp_count r = 20 \<and> length (resp_documents r) = 15)"
  by (simp add: Let_def length_py_sort_reverse mset_py_sort_reverse sorted_py_sort_reverse min_def)

theorem filter_documents_page_witness:
  "\<exists>r. filter_documents (JObj [(''document_type'', JList [JStr ''Delivery''])])
          (map (\<lambda>n. (replicate n CHR ''k'', D001 (replicate n CHR ''0''))) [0..<20]) = Inr r \<and>
       resp_count r = 20 \<and> length (resp_documents r) = 15"
proof -
  let ?filters = "[(''document_type'', JList [JStr ''Delivery''])]"
  let ?dd = "map (\<lambda>n. (replicate n CHR ''k'', D001 (replicate n CHR ''0''))) [0..<20]"
  have "apply_filters ?filters (dict_values ?dd) = dict_values ?dd"
    by (simp add: apply_filters_def filters_get_def dict_get_def dict_values_def
        filter_by_document_type_def filter_by_status_def filter_by_location_def
        filter_by_category_def D001_def Let_def)
  then have len: "length (apply_filters ?filters (dict_values ?dd)) = 20"
    by (simp add: dict_values_def)
  from filter_documents_page [of ?filters ?dd] len show ?thesis by blast
qed

text \<open>
  Claim C8: filtering is idempotent. Applying the filters to the documents they matched gives
  the same documents again.
\<close>

theorem apply_filters_idempotent:
  "apply_filters filters (apply_filters filters docs) = apply_filters filters docs"
proof -
  obtain P where P: "\<And>xs. apply_filters filters xs = filter P xs"
    using apply_filters_filter [of filters] by blast
  show ?thesis by (simp add: P)
qed

theorem apply_filters_idempotent_witness:
  "apply_filters [(''location'', JList [JStr ''W001''])]
     (dict_values (documents (default_data ''t1'' ''t2'' ''t3'' ''t4''))) = [D001 ''t1'', R002 ''t2'', T003 ''t3''] \<and>
   apply_filters [(''location'', JList [JStr ''W001''])] [D001 ''t1'', R002 ''t2'', T003 ''t3'']
     = [D001 ''t1'', R002 ''t2'', T003 ''t3'']"
proof -
  have 1: "apply_filters [(''location'', JList [JStr ''W001''])]
     (dict_values (documents (default_data ''t1'' ''t2'' ''t3'' ''t4''))) = [D001 ''t1'', R002 ''t2'', T003 ''t3'']"
    by (simp add: default_data_def apply_filters_def filters_get_def dict_get_def dict_values_def
        filter_by_document_type_def filter_by_status_def filter_by_location_def
        filter_by_category_def D001_def R002_def T003_def A004_def Let_def)
  from apply_filters_idempotent [of "[(''location'', JList [JStr ''W001''])]"
      "dict_values (documents (default_data ''t1'' ''t2'' ''t3'' ''t4''))"]
  show ?thesis unfolding 1 using 1 by simp
qed

end
